theory Spec2Isabelle
  imports Complex_Main "HOL-Library.AList"
begin

section \<open>Values of the host language\<close>

text \<open>
  The orchestrator \<^verbatim>\<open>DenoisingModel\<close> (\<^verbatim>\<open>denoising_model.py\<close>) is glue code over a
  tensor framework, an SDE object supplied by the caller and the configuration dictionary.
  Exceptions are values of \<open>py_error\<close>; configuration entries are values of \<open>pyval\<close>.
\<close>

datatype py_error =
    AttributeError string
  | KeyError string
  | TypeError string
  | ValueError string
  | IndexError string
  | NotImplementedError string
  | ExternalError string

datatype pyval =
    PNone
  | PBool bool
  | PInt int
  | PFloat real
  | PStr string
  | PList "pyval list"
  | PDict "(string \<times> pyval) list"


text \<open>\<^verbatim>\<open>d[k]\<close> with a string key: a dictionary without the key raises KeyError, any other
  object raises TypeError.\<close>

fun subscript :: "pyval \<Rightarrow> string \<Rightarrow> py_error + pyval" where
  "subscript (PDict kvs) k =
     (case map_of kvs k of None \<Rightarrow> Inl (KeyError k) | Some v \<Rightarrow> Inr v)"
| "subscript v k = Inl (TypeError ''not subscriptable with a string key'')"

text \<open>\<^verbatim>\<open>"{:s}".format(x)\<close>: only a string accepts the format code \<^verbatim>\<open>s\<close>.\<close>

fun format_s :: "pyval \<Rightarrow> py_error + string" where
  "format_s (PStr s) = Inr s"
| "format_s (PList xs) = Inl (TypeError ''unsupported format string'')"
| "format_s (PDict kvs) = Inl (TypeError ''unsupported format string'')"
| "format_s PNone = Inl (TypeError ''unsupported format string'')"
| "format_s v = Inl (ValueError ''Unknown format code s'')"

section \<open>Tensors\<close>

datatype 'a nd = Scalar 'a | Arr "'a nd list"

datatype device = Cpu | Cuda

datatype dtype = Float32 | Dtype string

text \<open>A tensor: its entries, the device holding it, its element type and whether it is
  attached to the autograd graph.\<close>

record 'a tensor =
  tdata :: "'a nd"
  tdev :: device
  tdtype :: dtype
  tgraph :: bool

definition to_device :: "device \<Rightarrow> 'a tensor \<Rightarrow> 'a tensor" where
  "to_device d x = x\<lparr>tdev := d\<rparr>"

definition detach :: "'a tensor \<Rightarrow> 'a tensor" where
  "detach x = x\<lparr>tgraph := False\<rparr>"

definition cpu :: "'a tensor \<Rightarrow> 'a tensor" where
  "cpu x = x\<lparr>tdev := Cpu\<rparr>"

fun map_nd :: "('a \<Rightarrow> 'a) \<Rightarrow> 'a nd \<Rightarrow> 'a nd" where
  "map_nd f (Scalar v) = Scalar (f v)"
| "map_nd f (Arr xs) = Arr (map (map_nd f) xs)"

text \<open>\<^verbatim>\<open>x.float()\<close>: a tensor that is already single precision is returned as it is; any
  other is converted entry by entry with the framework's rounding \<open>cast\<close>.\<close>

definition float_t :: "('a \<Rightarrow> 'a) \<Rightarrow> 'a tensor \<Rightarrow> 'a tensor" where
  "float_t cast x =
     (if tdtype x = Float32 then x
      else x\<lparr>tdata := map_nd cast (tdata x), tdtype := Float32\<rparr>)"

text \<open>\<^verbatim>\<open>x[0]\<close>: the first item along the first dimension; indexing a scalar or an empty
  batch raises IndexError.\<close>

definition index0 :: "'a tensor \<Rightarrow> py_error + 'a tensor" where
  "index0 x =
     (case tdata x of
        Scalar v \<Rightarrow> Inl (IndexError ''invalid index of a 0-dim tensor'')
      | Arr [] \<Rightarrow> Inl (IndexError ''index 0 is out of bounds for dimension 0 with size 0'')
      | Arr (y # ys) \<Rightarrow> Inr (x\<lparr>tdata := y\<rparr>))"

text \<open>\<^verbatim>\<open>x.squeeze()\<close>: every dimension of size one is removed.\<close>

fun squeeze_nd :: "'a nd \<Rightarrow> 'a nd" where
  "squeeze_nd (Scalar v) = Scalar v"
| "squeeze_nd (Arr [x]) = squeeze_nd x"
| "squeeze_nd (Arr xs) = Arr (map squeeze_nd xs)"

definition squeeze :: "'a tensor \<Rightarrow> 'a tensor" where
  "squeeze x = x\<lparr>tdata := squeeze_nd (tdata x)\<rparr>"

text \<open>\<^verbatim>\<open>x.item()\<close>: the value of a tensor with exactly one entry.\<close>

fun item_nd :: "'a nd \<Rightarrow> py_error + 'a" where
  "item_nd (Scalar v) = Inr v"
| "item_nd (Arr [x]) = item_nd x"
| "item_nd (Arr xs) = Inl (ValueError ''only one element tensors can be converted'')"

definition item :: "'a tensor \<Rightarrow> py_error + 'a" where
  "item x = item_nd (tdata x)"

section \<open>Objects of the framework\<close>

text \<open>A parameter tensor of the network. The parameter objects are shared by the network
  and the optimizers built over them, so they live in one store of the world, keyed by the
  name that \<^verbatim>\<open>self.model.named_parameters()\<close> gives them.\<close>

record 'a param =
  pdata :: "'a nd"
  requires_grad :: bool
  grad :: "'a nd option"

datatype wrapper = Unwrapped | DataParallel | DistributedDataParallel

record network =
  training :: bool
  net_device :: device
  wrapped :: wrapper

text \<open>Wrapping a network for parallel execution puts it under the attribute
  \<^verbatim>\<open>module\<close> of the wrapper, so \<^verbatim>\<open>named_parameters()\<close> of the wrapper gives every
  parameter its name with the prefix \<^verbatim>\<open>module.\<close>\<close>

definition wrap_names :: "(string \<times> 'a param) list \<Rightarrow> (string \<times> 'a param) list" where
  "wrap_names ps = map (\<lambda>(k, v). (''module.'' @ k, v)) ps"

record matching_loss =
  loss_type :: pyval
  is_weighted :: pyval
  loss_device :: device

text \<open>An Adam optimizer: the parameters it was built over (by name), its hyperparameters
  and its accumulated moment statistics \<open>opt_state\<close>.\<close>

record 'o optimizer_obj =
  opt_params :: "string list"
  opt_lr :: pyval
  opt_weight_decay :: pyval
  opt_betas :: "pyval \<times> pyval"
  opt_state :: 'o

text \<open>A scheduler, by the optimizer it drives (an index into the store of optimizers) and
  the arguments it was built with.\<close>

datatype scheduler =
    MultiStepLR_Restart nat pyval pyval pyval pyval pyval
  | CosineAnnealingLR_Restart nat pyval pyval pyval pyval

section \<open>The orchestrator and the world around it\<close>

text \<open>
  An instance of \<^verbatim>\<open>DenoisingModel\<close>. A Python object starts without attributes and
  \<^verbatim>\<open>__init__\<close> and the methods assign them one by one; \<open>None\<close> is an attribute that
  has not been assigned, and reading it raises AttributeError.
\<close>

record 'a denoising_model =
  opt :: "pyval option"
  device :: "device option"
  is_train :: "bool option"
  schedulers :: "scheduler list option"
  optimizers :: "nat list option"
  rank :: "int option"
  model :: "network option"
  loss_fn :: "matching_loss option"
  weight :: "pyval option"
  optimizer :: "nat option"
  log_dict :: "(string \<times> 'a) list option"
  state :: "'a tensor option"
  condition :: "'a tensor option"
  state_0 :: "'a tensor option"
  output' :: "'a tensor option"


text \<open>Calls that leave this file, with their arguments.\<close>

datatype 'a event =
    Call_BaseModel_init pyval
  | Call_get_rank
  | Call_define_G pyval
  | Call_current_device
  | Call_DistributedDataParallel "int list"
  | Call_DataParallel
  | Call_load_network string pyval
  | Call_save_network string pyval
  | Call_logger_info string
  | Call_logger_warning string
  | Call_MatchingLoss pyval pyval
  | Call_Adam "string list" pyval pyval pyval pyval
  | Call_MultiStepLR_Restart nat pyval pyval pyval pyval pyval
  | Call_CosineAnnealingLR_Restart nat pyval pyval pyval pyval
  | Call_set_mu "'a tensor"
  | Call_zero_grad nat
  | Call_noise_fn "'a tensor" "'a tensor"
  | Call_get_score_from_noise "'a tensor" "'a tensor"
  | Call_reverse_sde_step_mean "'a tensor" "'a tensor" "'a tensor"
  | Call_reverse_optimum_step "'a tensor" "'a tensor" "'a tensor"
  | Call_loss_fn "'a tensor" "'a tensor"
  | Call_mul pyval "'a tensor"
  | Call_backward "'a tensor"
  | Call_step nat
  | Call_reverse_sde "'a tensor" bool
  | Call_reverse_ode "'a tensor" bool

text \<open>
  The world: the orchestrator, the parameter tensors, the optimizers (an optimizer is
  referred to by its index here, since \<^verbatim>\<open>self.optimizer\<close> and an entry of
  \<^verbatim>\<open>self.optimizers\<close> are one object), the state \<open>ext\<close> of everything outside (the
  SDE object, the random generator, the file system), the calls made so far, each with
  the gradient mode it was made under, and the gradient mode.
\<close>

record ('a, 'o, 'w) world =
  self :: "'a denoising_model"
  params :: "(string \<times> 'a param) list"
  optim_store :: "'o optimizer_obj list"
  ext :: 'w
  trace :: "('a event \<times> bool) list"
  grad_enabled :: bool

type_synonym ('w, 'r) ext_fn = "'w \<Rightarrow> (py_error + 'r) \<times> 'w"

type_synonym ('a, 'o, 'w, 'r) prog =
  "('a, 'o, 'w) world \<Rightarrow> (py_error + 'r) \<times> ('a, 'o, 'w) world"

text \<open>What an SDE method can see of the orchestrator's side: the network (the SDE object
  holds its own reference to it), its parameters and the gradient mode.\<close>

record 'a ctx =
  ctx_net :: "network option"
  ctx_params :: "(string \<times> 'a param) list"
  ctx_grad :: bool

text \<open>The SDE object the caller passes in: its methods, as functions on the outside state
  that may raise. The library defining them is not part of this file.\<close>

record ('a, 'w) sde_obj =
  set_mu :: "'a tensor \<Rightarrow> ('w, unit) ext_fn"
  noise_fn :: "'a ctx \<Rightarrow> 'a tensor \<Rightarrow> 'a tensor \<Rightarrow> ('w, 'a tensor) ext_fn"
  get_score_from_noise :: "'a ctx \<Rightarrow> 'a tensor \<Rightarrow> 'a tensor \<Rightarrow> ('w, 'a tensor) ext_fn"
  reverse_sde_step_mean ::
    "'a ctx \<Rightarrow> 'a tensor \<Rightarrow> 'a tensor \<Rightarrow> 'a tensor \<Rightarrow> ('w, 'a tensor) ext_fn"
  reverse_optimum_step ::
    "'a ctx \<Rightarrow> 'a tensor \<Rightarrow> 'a tensor \<Rightarrow> 'a tensor \<Rightarrow> ('w, 'a tensor) ext_fn"
  reverse_sde :: "'a ctx \<Rightarrow> 'a tensor \<Rightarrow> bool \<Rightarrow> ('w, 'a tensor) ext_fn"
  reverse_ode :: "'a ctx \<Rightarrow> 'a tensor \<Rightarrow> bool \<Rightarrow> ('w, 'a tensor) ext_fn"

text \<open>What \<^verbatim>\<open>BaseModel.__init__\<close> assigns (\<^verbatim>\<open>base_model.py\<close> is not among the sources;
  these are the attributes this class reads without assigning them).\<close>

record 'o base_attrs =
  base_opt :: pyval
  base_device :: device
  base_is_train :: bool
  base_schedulers :: "scheduler list"
  base_optimizers :: "'o optimizer_obj list"

text \<open>The rest of the outside: the base class, the network factory, the parallel wrappers,
  checkpoint input and output, the loss module, the optimizer, automatic differentiation,
  the scheduler constructors and the rounding of \<^verbatim>\<open>.float()\<close>.\<close>

record ('a, 'o, 'w) framework =
  BaseModel_init :: "pyval \<Rightarrow> ('w, 'o base_attrs) ext_fn"
  get_rank :: "('w, int) ext_fn"
  define_G :: "pyval \<Rightarrow> ('w, network \<times> (string \<times> 'a param) list) ext_fn"
  current_device :: "('w, int) ext_fn"
  DistributedDataParallel_init :: "network \<Rightarrow> int list \<Rightarrow> ('w, unit) ext_fn"
  DataParallel_init :: "network \<Rightarrow> ('w, unit) ext_fn"
  load_network ::
    "string \<Rightarrow> network \<Rightarrow> (string \<times> 'a param) list \<Rightarrow> pyval \<Rightarrow>
       ('w, (string \<times> 'a param) list) ext_fn"
  save_network ::
    "network \<Rightarrow> (string \<times> 'a param) list \<Rightarrow> string \<Rightarrow> pyval \<Rightarrow> ('w, unit) ext_fn"
  MatchingLoss_init :: "pyval \<Rightarrow> pyval \<Rightarrow> ('w, unit) ext_fn"
  MatchingLoss_forward :: "matching_loss \<Rightarrow> 'a tensor \<Rightarrow> 'a tensor \<Rightarrow> ('w, 'a tensor) ext_fn"
  Adam_init ::
    "(string \<times> 'a param) list \<Rightarrow> pyval \<Rightarrow> pyval \<Rightarrow> pyval \<times> pyval \<Rightarrow> ('w, 'o) ext_fn"
  zero_grad ::
    "'o optimizer_obj \<Rightarrow> (string \<times> 'a param) list \<Rightarrow> ('w, (string \<times> 'a param) list) ext_fn"
  step_fn ::
    "'o optimizer_obj \<Rightarrow> (string \<times> 'a param) list \<Rightarrow>
       ('w, 'o optimizer_obj \<times> (string \<times> 'a param) list) ext_fn"
  backward ::
    "'a tensor \<Rightarrow> (string \<times> 'a param) list \<Rightarrow> ('w, (string \<times> 'a param) list) ext_fn"
  scalar_mul :: "pyval \<Rightarrow> 'a tensor \<Rightarrow> ('w, 'a tensor) ext_fn"
  MultiStepLR_Restart_init ::
    "'o optimizer_obj \<Rightarrow> pyval \<Rightarrow> pyval \<Rightarrow> pyval \<Rightarrow> pyval \<Rightarrow> pyval \<Rightarrow>
       ('w, 'o optimizer_obj) ext_fn"
  CosineAnnealingLR_Restart_init ::
    "'o optimizer_obj \<Rightarrow> pyval \<Rightarrow> pyval \<Rightarrow> pyval \<Rightarrow> pyval \<Rightarrow> ('w, 'o optimizer_obj) ext_fn"
  cast_float32 :: "'a \<Rightarrow> 'a"

subsection \<open>Sequencing\<close>

definition ret :: "'r \<Rightarrow> ('a, 'o, 'w, 'r) prog" where
  "ret x s = (Inr x, s)"

definition raise :: "py_error \<Rightarrow> ('a, 'o, 'w, 'r) prog" where
  "raise e s = (Inl e, s)"

text \<open>Run \<open>m\<close>, then \<open>f\<close> on its result; an exception of \<open>m\<close> ends the sequence and keeps
  the world as \<open>m\<close> left it.\<close>

definition pbind ::
  "('a, 'o, 'w, 'r) prog \<Rightarrow> ('r \<Rightarrow> ('a, 'o, 'w, 'q) prog) \<Rightarrow> ('a, 'o, 'w, 'q) prog" where
  "pbind m f s = (case m s of (Inl e, s') \<Rightarrow> (Inl e, s') | (Inr x, s') \<Rightarrow> f x s')"

definition lift :: "py_error + 'r \<Rightarrow> ('a, 'o, 'w, 'r) prog" where
  "lift r s = (r, s)"

text \<open>Reading an attribute of \<^verbatim>\<open>self\<close>.\<close>

definition get_attr ::
  "string \<Rightarrow> ('a denoising_model \<Rightarrow> 'r option) \<Rightarrow> ('a, 'o, 'w, 'r) prog" where
  "get_attr name sel s =
     (case sel (self s) of
        None \<Rightarrow> (Inl (AttributeError name), s)
      | Some v \<Rightarrow> (Inr v, s))"

text \<open>Assigning attributes of \<^verbatim>\<open>self\<close>.\<close>

definition set_self ::
  "('a denoising_model \<Rightarrow> 'a denoising_model) \<Rightarrow> ('a, 'o, 'w, unit) prog" where
  "set_self upd s = (Inr (), s\<lparr>self := upd (self s)\<rparr>)"

text \<open>A call to the outside: it is recorded with the gradient mode it runs under, and
  changes the outside state only.\<close>

definition ext_call :: "'a event \<Rightarrow> ('w, 'r) ext_fn \<Rightarrow> ('a, 'o, 'w, 'r) prog" where
  "ext_call ev f s =
     (case f (ext s) of
        (r, w') \<Rightarrow> (r, s\<lparr>ext := w', trace := trace s @ [(ev, grad_enabled s)]\<rparr>))"

definition get_ctx :: "('a, 'o, 'w, 'a ctx) prog" where
  "get_ctx s =
     (Inr \<lparr>ctx_net = model (self s), ctx_params = params s, ctx_grad = grad_enabled s\<rparr>, s)"

text \<open>A method of the \<^verbatim>\<open>sde\<close> argument; the argument defaults to \<^verbatim>\<open>None\<close>, which
  has no methods.\<close>

definition sde_method :: "('a, 'w) sde_obj option \<Rightarrow> string \<Rightarrow> ('a, 'o, 'w, ('a, 'w) sde_obj) prog" where
  "sde_method sde name =
     (case sde of
        None \<Rightarrow> raise (AttributeError name)
      | Some obj \<Rightarrow> ret obj)"

text \<open>\<^verbatim>\<open>with torch.no_grad():\<close> the gradient mode is off inside and is set back on exit,
  also when the body raises.\<close>

definition with_no_grad :: "('a, 'o, 'w, 'r) prog \<Rightarrow> ('a, 'o, 'w, 'r) prog" where
  "with_no_grad body s =
     (case body (s\<lparr>grad_enabled := False\<rparr>) of
        (r, s') \<Rightarrow> (r, s'\<lparr>grad_enabled := grad_enabled s\<rparr>))"

section \<open>The methods of \<^verbatim>\<open>DenoisingModel\<close>\<close>

subsection \<open>Calls on the network, the optimizer and the loss\<close>

text \<open>\<^verbatim>\<open>self.model.train()\<close> and \<^verbatim>\<open>self.model.eval()\<close> set the mode flag.\<close>

definition model_set_training :: "bool \<Rightarrow> ('a, 'o, 'w, unit) prog" where
  "model_set_training b =
     pbind (get_attr ''model'' model) (\<lambda>net.
     set_self (\<lambda>m. m\<lparr>model := Some (net\<lparr>training := b\<rparr>)\<rparr>))"

definition get_optimizer :: "nat \<Rightarrow> ('a, 'o, 'w, 'o optimizer_obj) prog" where
  "get_optimizer i s =
     (if i < length (optim_store s) then (Inr (optim_store s ! i), s)
      else (Inl (ExternalError ''no such optimizer''), s))"

definition set_params :: "(string \<times> 'a param) list \<Rightarrow> ('a, 'o, 'w, unit) prog" where
  "set_params ps s = (Inr (), s\<lparr>params := ps\<rparr>)"

definition set_optimizer :: "nat \<Rightarrow> 'o optimizer_obj \<Rightarrow> ('a, 'o, 'w, unit) prog" where
  "set_optimizer i ob s = (Inr (), s\<lparr>optim_store := (optim_store s)[i := ob]\<rparr>)"

text \<open>\<^verbatim>\<open>optimizer.zero_grad()\<close> clears the gradients of the optimizer's parameters.\<close>

definition call_zero_grad :: "('a, 'o, 'w) framework \<Rightarrow> nat \<Rightarrow> ('a, 'o, 'w, unit) prog" where
  "call_zero_grad fw i =
     pbind (get_optimizer i) (\<lambda>ob.
     pbind (\<lambda>s. ext_call (Call_zero_grad i) (zero_grad fw ob (params s)) s) (\<lambda>ps.
     set_params ps))"

text \<open>\<^verbatim>\<open>loss.backward()\<close> leaves the gradients of the loss in the parameters.\<close>

definition call_backward :: "('a, 'o, 'w) framework \<Rightarrow> 'a tensor \<Rightarrow> ('a, 'o, 'w, unit) prog" where
  "call_backward fw loss =
     pbind (\<lambda>s. ext_call (Call_backward loss) (backward fw loss (params s)) s) (\<lambda>ps.
     set_params ps)"

text \<open>\<^verbatim>\<open>optimizer.step()\<close> updates the parameters and the optimizer's own statistics.\<close>

definition call_step :: "('a, 'o, 'w) framework \<Rightarrow> nat \<Rightarrow> ('a, 'o, 'w, unit) prog" where
  "call_step fw i =
     pbind (get_optimizer i) (\<lambda>ob.
     pbind (\<lambda>s. ext_call (Call_step i) (step_fn fw ob (params s)) s) (\<lambda>(ob', ps).
     pbind (set_optimizer i ob') (\<lambda>_.
     set_params ps)))"

text \<open>A method of the SDE object, given what it can see at the moment of the call.\<close>

definition sde_call ::
  "'a event \<Rightarrow> ('a ctx \<Rightarrow> ('w, 'r) ext_fn) \<Rightarrow> ('a, 'o, 'w, 'r) prog" where
  "sde_call ev f = pbind get_ctx (\<lambda>c. ext_call ev (f c))"

subsection \<open>\<^verbatim>\<open>feed_data\<close> (lines 102 to 106)\<close>

definition feed_data ::
  "'a tensor \<Rightarrow> 'a tensor \<Rightarrow> 'a tensor option \<Rightarrow> ('a, 'o, 'w, unit) prog" where
  "feed_data state_arg LQ GT =
     pbind (get_attr ''device'' device) (\<lambda>d.
     pbind (set_self (\<lambda>m. m\<lparr>state := Some (to_device d state_arg)\<rparr>)) (\<lambda>_.
     pbind (get_attr ''device'' device) (\<lambda>d.
     pbind (set_self (\<lambda>m. m\<lparr>condition := Some (to_device d LQ)\<rparr>)) (\<lambda>_.
     (case GT of
        None \<Rightarrow> ret ()
      | Some gt \<Rightarrow>
          pbind (get_attr ''device'' device) (\<lambda>d.
          set_self (\<lambda>m. m\<lparr>state_0 := Some (to_device d gt)\<rparr>)))))))"

subsection \<open>\<^verbatim>\<open>optimize_parameters\<close> (lines 108 to 128)\<close>

text \<open>The argument \<open>step\<close> is not used by the body. The method returns nothing.\<close>

definition optimize_parameters ::
  "('a, 'o, 'w) framework \<Rightarrow> pyval \<Rightarrow> 'a tensor \<Rightarrow> ('a, 'w) sde_obj option \<Rightarrow>
     ('a, 'o, 'w, unit) prog" where
  "optimize_parameters fw step timesteps sde =
     pbind (sde_method sde ''set_mu'') (\<lambda>obj.
     pbind (get_attr ''condition'' condition) (\<lambda>cond.
     pbind (ext_call (Call_set_mu cond) (set_mu obj cond)) (\<lambda>_.
     pbind (get_attr ''optimizer'' optimizer) (\<lambda>i.
     pbind (call_zero_grad fw i) (\<lambda>_.
     pbind (get_attr ''device'' device) (\<lambda>d.
     pbind (ret (to_device d timesteps)) (\<lambda>timesteps.
     pbind (get_attr ''state'' state) (\<lambda>x.
     pbind (sde_call (Call_noise_fn x (squeeze timesteps))
              (\<lambda>c. noise_fn obj c x (squeeze timesteps))) (\<lambda>noise.
     pbind (sde_call (Call_get_score_from_noise noise timesteps)
              (\<lambda>c. get_score_from_noise obj c noise timesteps)) (\<lambda>score.
     pbind (get_attr ''state'' state) (\<lambda>x.
     pbind (sde_call (Call_reverse_sde_step_mean x score timesteps)
              (\<lambda>c. reverse_sde_step_mean obj c x score timesteps)) (\<lambda>xt_1_expection.
     pbind (get_attr ''state'' state) (\<lambda>x.
     pbind (get_attr ''state_0'' state_0) (\<lambda>x0.
     pbind (sde_call (Call_reverse_optimum_step x x0 timesteps)
              (\<lambda>c. reverse_optimum_step obj c x x0 timesteps)) (\<lambda>xt_1_optimum.
     pbind (get_attr ''weight'' weight) (\<lambda>w.
     pbind (get_attr ''loss_fn'' loss_fn) (\<lambda>lf.
     pbind (ext_call (Call_loss_fn xt_1_expection xt_1_optimum)
              (MatchingLoss_forward fw lf xt_1_expection xt_1_optimum)) (\<lambda>l.
     pbind (ext_call (Call_mul w l) (scalar_mul fw w l)) (\<lambda>loss.
     pbind (call_backward fw loss) (\<lambda>_.
     pbind (get_attr ''optimizer'' optimizer) (\<lambda>i.
     pbind (call_step fw i) (\<lambda>_.
     pbind (lift (item loss)) (\<lambda>v.
     pbind (get_attr ''log_dict'' log_dict) (\<lambda>ld.
     set_self (\<lambda>m. m\<lparr>log_dict := Some (AList.update ''loss'' v ld)\<rparr>)))))))))))))))))))))))))"

subsection \<open>\<^verbatim>\<open>test\<close> (lines 130 to 142)\<close>

definition test ::
  "('a, 'w) sde_obj option \<Rightarrow> bool \<Rightarrow> bool \<Rightarrow> ('a, 'o, 'w, unit) prog" where
  "test sde perform_ode save_states =
     pbind (sde_method sde ''set_mu'') (\<lambda>obj.
     pbind (get_attr ''condition'' condition) (\<lambda>cond.
     pbind (ext_call (Call_set_mu cond) (set_mu obj cond)) (\<lambda>_.
     pbind (model_set_training False) (\<lambda>_.
     pbind (with_no_grad
              (if \<not> perform_ode then
                 pbind (get_attr ''state'' state) (\<lambda>x.
                 pbind (sde_call (Call_reverse_sde x save_states)
                          (\<lambda>c. reverse_sde obj c x save_states)) (\<lambda>r.
                 set_self (\<lambda>m. m\<lparr>output' := Some r\<rparr>)))
               else
                 pbind (get_attr ''state'' state) (\<lambda>x.
                 pbind (sde_call (Call_reverse_ode x save_states)
                          (\<lambda>c. reverse_ode obj c x save_states)) (\<lambda>r.
                 set_self (\<lambda>m. m\<lparr>output' := Some r\<rparr>))))) (\<lambda>_.
     model_set_training True)))))"

subsection \<open>The accessors (lines 144 to 153)\<close>

definition get_current_log :: "('a, 'o, 'w, (string \<times> 'a) list) prog" where
  "get_current_log = get_attr ''log_dict'' log_dict"

text \<open>\<^verbatim>\<open>x.detach()[0].float().cpu()\<close>\<close>

definition visual :: "('a, 'o, 'w) framework \<Rightarrow> 'a tensor \<Rightarrow> py_error + 'a tensor" where
  "visual fw x =
     (case index0 (detach x) of
        Inl e \<Rightarrow> Inl e
      | Inr y \<Rightarrow> Inr (cpu (float_t (cast_float32 fw) y)))"

definition get_current_visuals ::
  "('a, 'o, 'w) framework \<Rightarrow> bool \<Rightarrow> ('a, 'o, 'w, (string \<times> 'a tensor) list) prog" where
  "get_current_visuals fw need_GT =
     pbind (ret []) (\<lambda>out_dict.
     pbind (get_attr ''condition'' condition) (\<lambda>c.
     pbind (lift (visual fw c)) (\<lambda>v.
     pbind (ret (AList.update ''Input'' v out_dict)) (\<lambda>out_dict.
     pbind (get_attr ''output'' output') (\<lambda>out.
     pbind (lift (visual fw out)) (\<lambda>v.
     pbind (ret (AList.update ''Output'' v out_dict)) (\<lambda>out_dict.
     if need_GT then
       pbind (get_attr ''state_0'' state_0) (\<lambda>gt.
       pbind (lift (visual fw gt)) (\<lambda>v.
       ret (AList.update ''GT'' v out_dict)))
     else ret out_dict)))))))"

subsection \<open>\<^verbatim>\<open>load\<close> and \<^verbatim>\<open>save\<close> (lines 173 to 180)\<close>

text \<open>The logger only records its line.\<close>

definition logger_info :: "string \<Rightarrow> ('a, 'o, 'w, unit) prog" where
  "logger_info msg = ext_call (Call_logger_info msg) (\<lambda>w. (Inr (), w))"


text \<open>\<^verbatim>\<open>self.load_network(path, network, strict)\<close> of the base class loads the checkpoint
  into the parameters of the network.\<close>

definition call_load_network ::
  "('a, 'o, 'w) framework \<Rightarrow> string \<Rightarrow> network \<Rightarrow> pyval \<Rightarrow> ('a, 'o, 'w, unit) prog" where
  "call_load_network fw path net strict =
     pbind (\<lambda>s. ext_call (Call_load_network path strict)
                   (load_network fw path net (params s) strict) s) (\<lambda>ps.
     set_params ps)"

definition load :: "('a, 'o, 'w) framework \<Rightarrow> ('a, 'o, 'w, unit) prog" where
  "load fw =
     pbind (get_attr ''opt'' opt) (\<lambda>c.
     pbind (lift (subscript c ''path'')) (\<lambda>p.
     pbind (lift (subscript p ''pretrain_model_G'')) (\<lambda>load_path_G.
     if load_path_G \<noteq> PNone then
       pbind (lift (format_s load_path_G)) (\<lambda>path.
       pbind (logger_info (''Loading model for G ['' @ path @ ''] ...'')) (\<lambda>_.
       pbind (get_attr ''model'' model) (\<lambda>net.
       pbind (get_attr ''opt'' opt) (\<lambda>c.
       pbind (lift (subscript c ''path'')) (\<lambda>p.
       pbind (lift (subscript p ''strict_load'')) (\<lambda>strict.
       call_load_network fw path net strict))))))
     else ret ())))"

definition save :: "('a, 'o, 'w) framework \<Rightarrow> pyval \<Rightarrow> ('a, 'o, 'w, unit) prog" where
  "save fw iter_label =
     pbind (get_attr ''model'' model) (\<lambda>net.
     (\<lambda>s. ext_call (Call_save_network ''G'' iter_label)
             (save_network fw net (params s) ''G'' iter_label) s))"

subsection \<open>\<^verbatim>\<open>__init__\<close> (lines 23 to 100)\<close>












section \<open>Concrete inputs\<close>

text \<open>A small instance, used to run the definitions: tensors of integers, an outside state
  that counts the calls to \<^verbatim>\<open>set_mu\<close>, and optimizer statistics that count the steps.\<close>

definition ex_tensor :: "int nd \<Rightarrow> int tensor" where
  "ex_tensor d = \<lparr>tdata = d, tdev = Cpu, tdtype = Dtype ''float64'', tgraph = False\<rparr>"

definition ex_state :: "int tensor" where
  "ex_state = ex_tensor (Arr [Arr [Scalar 1, Scalar 2], Arr [Scalar 3, Scalar 4]])"

definition ex_LQ :: "int tensor" where
  "ex_LQ = ex_tensor (Arr [Arr [Scalar 5, Scalar 6], Arr [Scalar 7, Scalar 8]])"

definition ex_GT :: "int tensor" where
  "ex_GT = ex_tensor (Arr [Arr [Scalar 9, Scalar 10], Arr [Scalar 11, Scalar 12]])"

definition ex_timesteps :: "int tensor" where
  "ex_timesteps = ex_tensor (Arr [Arr [Scalar 40], Arr [Scalar 70]])"

text \<open>An SDE object whose methods all return; the two samplers give different results.\<close>

definition ex_sde :: "(int, nat) sde_obj" where
  "ex_sde = \<lparr>
     set_mu = (\<lambda>mu w. (Inr (), Suc w)),
     noise_fn = (\<lambda>c x t w. (Inr (x\<lparr>tgraph := True\<rparr>), w)),
     get_score_from_noise = (\<lambda>c noise t w. (Inr noise, w)),
     reverse_sde_step_mean = (\<lambda>c x score t w. (Inr score, w)),
     reverse_optimum_step = (\<lambda>c x x0 t w. (Inr x0, w)),
     reverse_sde = (\<lambda>c x save_states w. (Inr (x\<lparr>tdata := Arr [tdata x]\<rparr>), w)),
     reverse_ode = (\<lambda>c x save_states w. (Inr x, w))\<rparr>"

text \<open>An SDE object whose stochastic sampler raises.\<close>

definition failing_sde :: "(int, nat) sde_obj" where
  "failing_sde = ex_sde\<lparr>reverse_sde :=
     (\<lambda>c x save_states w. (Inl (ExternalError ''out of memory''), w))\<rparr>"

definition ex_net_params :: "(string \<times> int param) list" where
  "ex_net_params =
     [(''weight'', \<lparr>pdata = Arr [Scalar 1, Scalar 2], requires_grad = True, grad = None\<rparr>),
      (''bias'', \<lparr>pdata = Scalar 0, requires_grad = False, grad = None\<rparr>)]"

text \<open>A framework whose calls all return; \<open>b\<close> is the training flag the base class sets.\<close>

definition ex_fw :: "bool \<Rightarrow> (int, nat, nat) framework" where
  "ex_fw b = \<lparr>
     BaseModel_init = (\<lambda>c w. (Inr \<lparr>base_opt = c, base_device = Cuda, base_is_train = b,
       base_schedulers = [], base_optimizers = []\<rparr>, w)),
     get_rank = (\<lambda>w. (Inr 0, w)),
     define_G = (\<lambda>c w. (Inr (\<lparr>training = True, net_device = Cpu, wrapped = Unwrapped\<rparr>,
       ex_net_params), w)),
     current_device = (\<lambda>w. (Inr 0, w)),
     DistributedDataParallel_init = (\<lambda>net ids w. (Inr (), w)),
     DataParallel_init = (\<lambda>net w. (Inr (), w)),
     load_network = (\<lambda>path net ps strict w. (Inr ps, w)),
     save_network = (\<lambda>net ps label iter_label w. (Inr (), w)),
     MatchingLoss_init = (\<lambda>loss_type is_weighted w. (Inr (), w)),
     MatchingLoss_forward = (\<lambda>lf a b w.
       (Inr \<lparr>tdata = Scalar 3, tdev = tdev a, tdtype = tdtype a, tgraph = True\<rparr>, w)),
     Adam_init = (\<lambda>ps lr wd betas w. (Inr 0, w)),
     zero_grad = (\<lambda>ob ps w. (Inr (map (\<lambda>(k, v). (k, v\<lparr>grad := None\<rparr>)) ps), w)),
     step_fn = (\<lambda>ob ps w. (Inr (ob\<lparr>opt_state := Suc (opt_state ob)\<rparr>, ps), w)),
     backward = (\<lambda>loss ps w.
       (Inr (map (\<lambda>(k, v). (k, v\<lparr>grad := Some (Scalar 1)\<rparr>)) ps), w)),
     scalar_mul = (\<lambda>c t w. (Inr t, w)),
     MultiStepLR_Restart_init = (\<lambda>ob lr_steps restarts weights gamma clear_state w. (Inr ob, w)),
     CosineAnnealingLR_Restart_init = (\<lambda>ob T_period eta_min restarts weights w. (Inr ob, w)),
     cast_float32 = (\<lambda>v. v)\<rparr>"

text \<open>A configuration; \<open>scheme\<close> is the learning-rate scheme and \<open>path\<close> the checkpoint
  path.\<close>

definition ex_train_opt :: "pyval \<Rightarrow> pyval" where
  "ex_train_opt scheme = PDict
     [(''is_weighted'', PBool False), (''loss_type'', PStr ''l1''), (''weight'', PFloat 1),
      (''weight_decay_G'', PInt 0), (''lr_G'', PFloat (1 / 10000)),
      (''beta1'', PFloat (9 / 10)), (''beta2'', PFloat (99 / 100)),
      (''lr_scheme'', scheme), (''lr_steps'', PList [PInt 200000, PInt 400000]),
      (''restarts'', PNone), (''restart_weights'', PNone), (''lr_gamma'', PFloat (1 / 2)),
      (''clear_state'', PBool False), (''T_period'', PList [PInt 700000]),
      (''eta_min'', PFloat (1 / 10000000))]"

definition ex_opt :: "pyval \<Rightarrow> pyval \<Rightarrow> pyval" where
  "ex_opt scheme path = PDict
     [(''dist'', PBool False),
      (''train'', ex_train_opt scheme),
      (''path'', PDict [(''pretrain_model_G'', path), (''strict_load'', PBool True)])]"

text \<open>An orchestrator after construction for training, before any data.\<close>

definition ex_self :: "int denoising_model" where
  "ex_self = \<lparr>opt = Some (ex_opt (PStr ''MultiStepLR'') PNone), device = Some Cuda,
     is_train = Some True,
     schedulers = Some [MultiStepLR_Restart 0 (PList [PInt 200000, PInt 400000]) PNone PNone
       (PFloat (1 / 2)) (PBool False)],
     optimizers = Some [0], rank = Some (- 1),
     model = Some \<lparr>training = True, net_device = Cuda, wrapped = DataParallel\<rparr>,
     loss_fn = Some \<lparr>loss_type = PStr ''l1'', is_weighted = PBool False, loss_device = Cuda\<rparr>,
     weight = Some (PFloat 1), optimizer = Some 0, log_dict = Some [],
     state = None, condition = None, state_0 = None, output' = None\<rparr>"

definition ex_world :: "(int, nat, nat) world" where
  "ex_world = \<lparr>self = ex_self, params = wrap_names ex_net_params,
     optim_store = [\<lparr>opt_params = [''module.weight''], opt_lr = PFloat (1 / 10000),
       opt_weight_decay = PInt 0, opt_betas = (PFloat (9 / 10), PFloat (99 / 100)),
       opt_state = 0\<rparr>],
     ext = 0, trace = [], grad_enabled = True\<rparr>"


text \<open>One step with ground truth was fed, then one without.\<close>

definition ex_fed :: "(int, nat, nat) world" where
  "ex_fed = snd (feed_data ex_state ex_LQ (Some ex_GT) ex_world)"

definition ex_fed_again :: "(int, nat, nat) world" where
  "ex_fed_again = snd (feed_data ex_LQ ex_state None ex_fed)"

text \<open>The world after inference on the fed step, with the deterministic sampler and with
  the stochastic one.\<close>

definition ex_tested :: "(int, nat, nat) world" where
  "ex_tested = snd (test (Some ex_sde) True False ex_fed)"

definition ex_sampled :: "(int, nat, nat) world" where
  "ex_sampled = snd (test (Some ex_sde) False True ex_fed)"

text \<open>A step fed without ground truth, on an orchestrator that never had one.\<close>

definition ex_fed_noGT :: "(int, nat, nat) world" where
  "ex_fed_noGT = snd (feed_data ex_state ex_LQ None ex_world)"

text \<open>The constructed orchestrator, with a checkpoint path in its configuration.\<close>

definition ex_with_path :: "(int, nat, nat) world" where
  "ex_with_path = ex_world\<lparr>self :=
     ex_self\<lparr>opt := Some (ex_opt (PStr ''MultiStepLR'') (PStr ''latest_G.pth''))\<rparr>\<rparr>"


section \<open>Rules for sequencing\<close>

lemma pbind_ret [simp]: "pbind (ret x) f s = f x s"
  by (simp add: pbind_def ret_def)

lemma pbind_raise [simp]: "pbind (raise e) f s = (Inl e, s)"
  by (simp add: pbind_def raise_def)

lemma pbind_lift_Inr [simp]: "pbind (lift (Inr x)) f s = f x s"
  by (simp add: pbind_def lift_def)

lemma pbind_lift_Inl [simp]: "pbind (lift (Inl e)) f s = (Inl e, s)"
  by (simp add: pbind_def lift_def)

lemma pbind_get_attr_Some:
  "sel (self s) = Some v \<Longrightarrow> pbind (get_attr name sel) f s = f v s"
  by (simp add: pbind_def get_attr_def)

lemma pbind_get_attr_None:
  "sel (self s) = None \<Longrightarrow> pbind (get_attr name sel) f s = (Inl (AttributeError name), s)"
  by (simp add: pbind_def get_attr_def)

lemma pbind_set_self [simp]: "pbind (set_self upd) f s = f () (s\<lparr>self := upd (self s)\<rparr>)"
  by (simp add: pbind_def set_self_def)

lemma pbind_ext_call_Inr:
  "g (ext s) = (Inr x, w') \<Longrightarrow>
   pbind (ext_call ev g) f s =
     f x (s\<lparr>ext := w', trace := trace s @ [(ev, grad_enabled s)]\<rparr>)"
  by (simp add: pbind_def ext_call_def)

lemma pbind_ext_call_Inl:
  "g (ext s) = (Inl e, w') \<Longrightarrow>
   pbind (ext_call ev g) f s =
     (Inl e, s\<lparr>ext := w', trace := trace s @ [(ev, grad_enabled s)]\<rparr>)"
  by (simp add: pbind_def ext_call_def)

section \<open>Feeding data\<close>

lemma feed_data_eq:
  "device (self s) = Some d \<Longrightarrow>
   feed_data x lq gt s =
     (Inr (), s\<lparr>self := (self s)\<lparr>state := Some (to_device d x),
        condition := Some (to_device d lq),
        state_0 := (case gt of None \<Rightarrow> state_0 (self s) | Some g \<Rightarrow> Some (to_device d g))\<rparr>\<rparr>)"
  by (cases gt) (simp_all add: feed_data_def pbind_get_attr_Some set_self_def ret_def)

lemma ex_fed_eq:
  "ex_fed = ex_world\<lparr>self := ex_self\<lparr>state := Some (to_device Cuda ex_state),
     condition := Some (to_device Cuda ex_LQ), state_0 := Some (to_device Cuda ex_GT)\<rparr>\<rparr>"
  by (simp add: ex_fed_def feed_data_eq [where d = Cuda] ex_world_def ex_self_def)

text \<open>
  C1 (as stated, refuted): a call of \<^verbatim>\<open>feed_data\<close> without ground truth is claimed to replace
  the stored \<^verbatim>\<open>state_0\<close> as well. After a step fed with ground truth and a second step fed
  without, the state and the condition are those of the second step, and \<^verbatim>\<open>state_0\<close> is
  still the ground truth of the first.
\<close>

theorem feed_data_without_GT_keeps_state_0:
  "state (self ex_fed_again) = Some (to_device Cuda ex_LQ)
   \<and> condition (self ex_fed_again) = Some (to_device Cuda ex_state)
   \<and> state_0 (self ex_fed_again) = Some (to_device Cuda ex_GT)
   \<and> state_0 (self ex_fed_again) = state_0 (self ex_fed)"
  by (simp add: ex_fed_again_def ex_fed_eq feed_data_eq [where d = Cuda] ex_self_def)

text \<open>
  C1 (amended): every call of \<^verbatim>\<open>feed_data\<close> on a constructed orchestrator returns, stores
  the state and the condition moved to the compute device in place of those of the step
  before, and changes nothing else but \<^verbatim>\<open>state_0\<close>: the ground truth moved to the device
  when one is given, the stored value unchanged when none is given.
\<close>

theorem feed_data_overwrites:
  assumes "device (self s) = Some d"
  shows "feed_data x lq gt s =
     (Inr (), s\<lparr>self := (self s)\<lparr>state := Some (to_device d x),
        condition := Some (to_device d lq),
        state_0 := (case gt of None \<Rightarrow> state_0 (self s) | Some g \<Rightarrow> Some (to_device d g))\<rparr>\<rparr>)"
  using assms by (rule feed_data_eq)

theorem feed_data_overwrites_witness:
  "device (self ex_world) = Some Cuda
   \<and> feed_data ex_state ex_LQ (Some ex_GT) ex_world =
     (Inr (), ex_world\<lparr>self := ex_self\<lparr>state := Some (to_device Cuda ex_state),
        condition := Some (to_device Cuda ex_LQ),
        state_0 := Some (to_device Cuda ex_GT)\<rparr>\<rparr>)"
proof -
  have d: "device (self ex_world) = Some Cuda"
    by (simp add: ex_world_def ex_self_def)
  show ?thesis
    using d feed_data_overwrites [OF d, of ex_state ex_LQ "Some ex_GT"]
    by (simp add: ex_world_def)
qed

section \<open>The \<^verbatim>\<open>sde\<close> argument\<close>

text \<open>
  C9: the argument \<^verbatim>\<open>sde\<close> of \<^verbatim>\<open>optimize_parameters\<close> and of \<^verbatim>\<open>test\<close> defaults to
  \<^verbatim>\<open>None\<close>, and both methods look up its method \<^verbatim>\<open>set_mu\<close> before anything else: a call
  without the argument raises AttributeError, whatever the state of the orchestrator, and
  leaves the world as it was.
\<close>

theorem sde_argument_required:
  "optimize_parameters fw step timesteps None s = (Inl (AttributeError ''set_mu''), s)
   \<and> test None perform_ode save_states s = (Inl (AttributeError ''set_mu''), s)"
  by (simp add: optimize_parameters_def test_def sde_method_def)

lemma feed_data_Inr:
  assumes "feed_data x lq gt s = (Inr (), s')"
  shows "\<exists>d. device (self s) = Some d"
proof (cases "device (self s)")
  case None
  then have "feed_data x lq gt s = (Inl (AttributeError ''device''), s)"
    by (simp add: feed_data_def pbind_get_attr_None)
  with assms show ?thesis by simp
next
  case (Some d)
  then show ?thesis by simp
qed

section \<open>Inference\<close>

text \<open>What \<^verbatim>\<open>test\<close> does, branch by branch.\<close>

lemma test_unfold:
  "test sde ode sv s =
    (case sde of
       None \<Rightarrow> (Inl (AttributeError ''set_mu''), s)
     | Some obj \<Rightarrow>
       (case condition (self s) of
          None \<Rightarrow> (Inl (AttributeError ''condition''), s)
        | Some cond \<Rightarrow>
          (case set_mu obj cond (ext s) of
             (Inl e, w1) \<Rightarrow>
               (Inl e, s\<lparr>ext := w1, trace := trace s @ [(Call_set_mu cond, grad_enabled s)]\<rparr>)
           | (Inr u, w1) \<Rightarrow>
             (case model (self s) of
                None \<Rightarrow>
                  (Inl (AttributeError ''model''),
                   s\<lparr>ext := w1, trace := trace s @ [(Call_set_mu cond, grad_enabled s)]\<rparr>)
              | Some net \<Rightarrow>
                (case state (self s) of
                   None \<Rightarrow>
                     (Inl (AttributeError ''state''),
                      s\<lparr>ext := w1, trace := trace s @ [(Call_set_mu cond, grad_enabled s)],
                        self := (self s)\<lparr>model := Some (net\<lparr>training := False\<rparr>)\<rparr>\<rparr>)
                 | Some x \<Rightarrow>
                   (case (if ode then reverse_ode obj else reverse_sde obj)
                           \<lparr>ctx_net = Some (net\<lparr>training := False\<rparr>), ctx_params = params s,
                             ctx_grad = False\<rparr> x sv w1 of
                      (Inl e, w2) \<Rightarrow>
                        (Inl e,
                         s\<lparr>ext := w2,
                           trace := trace s @ [(Call_set_mu cond, grad_enabled s),
                             (if ode then Call_reverse_ode x sv else Call_reverse_sde x sv, False)],
                           self := (self s)\<lparr>model := Some (net\<lparr>training := False\<rparr>)\<rparr>\<rparr>)
                    | (Inr r, w2) \<Rightarrow>
                        (Inr (),
                         s\<lparr>ext := w2,
                           trace := trace s @ [(Call_set_mu cond, grad_enabled s),
                             (if ode then Call_reverse_ode x sv else Call_reverse_sde x sv, False)],
                           self := (self s)\<lparr>model := Some (net\<lparr>training := True\<rparr>),
                             output' := Some r\<rparr>\<rparr>)))))))"
  by (auto simp: test_def sde_method_def pbind_def get_attr_def ext_call_def
      model_set_training_def set_self_def with_no_grad_def sde_call_def get_ctx_def
      raise_def ret_def
      split: option.splits sum.splits prod.splits)

lemma test_Inr:
  assumes "test sde ode sv s = (Inr (), s')"
  shows "\<exists>obj cond w1 net x r w2.
     sde = Some obj \<and> condition (self s) = Some cond
     \<and> set_mu obj cond (ext s) = (Inr (), w1)
     \<and> model (self s) = Some net \<and> state (self s) = Some x
     \<and> (if ode then reverse_ode obj else reverse_sde obj)
           \<lparr>ctx_net = Some (net\<lparr>training := False\<rparr>), ctx_params = params s,
             ctx_grad = False\<rparr> x sv w1 = (Inr r, w2)
     \<and> s' = s\<lparr>ext := w2,
           trace := trace s @ [(Call_set_mu cond, grad_enabled s),
             (if ode then Call_reverse_ode x sv else Call_reverse_sde x sv, False)],
           self := (self s)\<lparr>model := Some (net\<lparr>training := True\<rparr>), output' := Some r\<rparr>\<rparr>"
  using assms unfolding test_unfold
  by (auto split: option.splits sum.splits prod.splits)


lemma test_frame_all:
  "params (snd (test sde ode sv s)) = params s
   \<and> optim_store (snd (test sde ode sv s)) = optim_store s
   \<and> grad_enabled (snd (test sde ode sv s)) = grad_enabled s
   \<and> log_dict (self (snd (test sde ode sv s))) = log_dict (self s)
   \<and> state (self (snd (test sde ode sv s))) = state (self s)
   \<and> condition (self (snd (test sde ode sv s))) = condition (self s)
   \<and> state_0 (self (snd (test sde ode sv s))) = state_0 (self s)"
  unfolding test_unfold
  by (auto split: option.splits sum.splits prod.splits)

lemma test_ode_ex:
  "test (Some ex_sde) True False ex_fed =
     (Inr (), ex_fed\<lparr>ext := 1,
        trace := [(Call_set_mu (to_device Cuda ex_LQ), True),
                  (Call_reverse_ode (to_device Cuda ex_state) False, False)],
        self := (self ex_fed)\<lparr>output' := Some (to_device Cuda ex_state)\<rparr>\<rparr>)"
  by (simp add: test_unfold ex_fed_eq ex_sde_def ex_world_def ex_self_def)

lemma test_sde_ex:
  "test (Some ex_sde) False True ex_fed =
     (Inr (), ex_fed\<lparr>ext := 1,
        trace := [(Call_set_mu (to_device Cuda ex_LQ), True),
                  (Call_reverse_sde (to_device Cuda ex_state) True, False)],
        self := (self ex_fed)\<lparr>output' :=
          Some ((to_device Cuda ex_state)\<lparr>tdata := Arr [tdata ex_state]\<rparr>)\<rparr>\<rparr>)"
  by (simp add: test_unfold ex_fed_eq ex_sde_def ex_world_def ex_self_def to_device_def)

lemma test_failing_ex:
  "test (Some failing_sde) False False ex_fed =
     (Inl (ExternalError ''out of memory''), ex_fed\<lparr>ext := 1,
        trace := [(Call_set_mu (to_device Cuda ex_LQ), True),
                  (Call_reverse_sde (to_device Cuda ex_state) False, False)],
        self := (self ex_fed)\<lparr>model :=
          Some \<lparr>training = False, net_device = Cuda, wrapped = DataParallel\<rparr>\<rparr>\<rparr>)"
  by (simp add: test_unfold ex_fed_eq failing_sde_def ex_sde_def ex_world_def ex_self_def)

lemma ex_tested_eq:
  "test (Some ex_sde) True False ex_fed = (Inr (), ex_tested)"
  by (simp add: ex_tested_def test_ode_ex)

lemma ex_sampled_eq:
  "test (Some ex_sde) False True ex_fed = (Inr (), ex_sampled)"
  by (simp add: ex_sampled_def test_sde_ex)

lemma ex_tested_explicit:
  "ex_tested = ex_fed\<lparr>ext := 1,
        trace := [(Call_set_mu (to_device Cuda ex_LQ), True),
                  (Call_reverse_ode (to_device Cuda ex_state) False, False)],
        self := (self ex_fed)\<lparr>output' := Some (to_device Cuda ex_state)\<rparr>\<rparr>"
  by (simp add: ex_tested_def test_ode_ex)






text \<open>
  C6 (as stated, refuted): the mode is claimed to be \<^verbatim>\<open>train\<close> after \<^verbatim>\<open>test\<close> even when the
  sampler raises. With a stochastic sampler that raises, the exception leaves \<^verbatim>\<open>test\<close>
  after \<^verbatim>\<open>self.model.eval()\<close> and before \<^verbatim>\<open>self.model.train()\<close>: the network was in
  training mode before the call and is in evaluation mode after it.
\<close>

theorem test_sampler_raises_leaves_eval:
  "model (self ex_fed) = Some \<lparr>training = True, net_device = Cuda, wrapped = DataParallel\<rparr>
   \<and> fst (test (Some failing_sde) False False ex_fed) = Inl (ExternalError ''out of memory'')
   \<and> model (self (snd (test (Some failing_sde) False False ex_fed))) =
       Some \<lparr>training = False, net_device = Cuda, wrapped = DataParallel\<rparr>"
  by (simp add: test_failing_ex) (simp add: ex_fed_eq ex_self_def)

text \<open>
  C6 (amended): whenever \<^verbatim>\<open>test\<close> returns, with either sampler, the network is in training
  mode afterwards (and is otherwise the network it was).
\<close>

theorem test_returns_in_train_mode:
  assumes "test sde perform_ode save_states s = (Inr (), s')"
  shows "\<exists>net. model (self s) = Some net \<and> model (self s') = Some (net\<lparr>training := True\<rparr>)"
  using test_Inr [OF assms] by auto

theorem test_returns_in_train_mode_witness:
  "test (Some ex_sde) False True ex_fed = (Inr (), ex_sampled)
   \<and> model (self ex_sampled) =
       Some \<lparr>training = True, net_device = Cuda, wrapped = DataParallel\<rparr>"
  using ex_sampled_eq test_returns_in_train_mode [OF ex_sampled_eq]
  by (auto simp add: ex_fed_eq ex_self_def)







section \<open>The visuals\<close>

lemma visual_eq:
  "tdata x = Arr (y # ys) \<Longrightarrow>
   visual fw x = Inr \<lparr>tdata = (if tdtype x = Float32 then y else map_nd (cast_float32 fw) y),
     tdev = Cpu, tdtype = Float32, tgraph = False\<rparr>"
  by (cases x) (simp add: visual_def index0_def detach_def float_t_def cpu_def)

lemma get_current_visuals_eq:
  assumes "condition (self s) = Some c" "tdata c = Arr (c0 # cs)"
    and "output' (self s) = Some out" "tdata out = Arr (o0 # os)"
  shows "get_current_visuals fw False s =
     (Inr [(''Input'', \<lparr>tdata = (if tdtype c = Float32 then c0 else map_nd (cast_float32 fw) c0),
              tdev = Cpu, tdtype = Float32, tgraph = False\<rparr>),
           (''Output'', \<lparr>tdata = (if tdtype out = Float32 then o0 else map_nd (cast_float32 fw) o0),
              tdev = Cpu, tdtype = Float32, tgraph = False\<rparr>)], s)"
    and "state_0 (self s) = Some g \<Longrightarrow> tdata g = Arr (g0 # gs) \<Longrightarrow>
     get_current_visuals fw True s =
     (Inr [(''Input'', \<lparr>tdata = (if tdtype c = Float32 then c0 else map_nd (cast_float32 fw) c0),
              tdev = Cpu, tdtype = Float32, tgraph = False\<rparr>),
           (''Output'', \<lparr>tdata = (if tdtype out = Float32 then o0 else map_nd (cast_float32 fw) o0),
              tdev = Cpu, tdtype = Float32, tgraph = False\<rparr>),
           (''GT'', \<lparr>tdata = (if tdtype g = Float32 then g0 else map_nd (cast_float32 fw) g0),
              tdev = Cpu, tdtype = Float32, tgraph = False\<rparr>)], s)"
  using assms
  by (simp_all add: get_current_visuals_def pbind_get_attr_Some visual_eq ret_def)

text \<open>
  C7: after \<^verbatim>\<open>feed_data\<close> and a call of \<^verbatim>\<open>test\<close> that returned, for a condition and an
  output with at least one item in the batch, \<^verbatim>\<open>get_current_visuals(need_GT=False)\<close> returns
  the keys \<^verbatim>\<open>Input\<close> and \<^verbatim>\<open>Output\<close> and no other; with \<^verbatim>\<open>need_GT=True\<close> and a ground
  truth fed (with at least one item) it returns \<^verbatim>\<open>GT\<close> as well. Each value is the first
  item of its batch, detached, in single precision and in host memory. The world is not
  changed.
\<close>

theorem get_current_visuals_after_test:
  assumes "feed_data x lq gt s0 = (Inr (), s1)"
    and "test sde perform_ode save_states s1 = (Inr (), s2)"
    and "tdata lq = Arr (c0 # cs)"
    and "output' (self s2) = Some out"
    and "tdata out = Arr (o0 # os)"
  shows "get_current_visuals fw False s2 =
     (Inr [(''Input'', \<lparr>tdata = (if tdtype lq = Float32 then c0 else map_nd (cast_float32 fw) c0),
              tdev = Cpu, tdtype = Float32, tgraph = False\<rparr>),
           (''Output'', \<lparr>tdata = (if tdtype out = Float32 then o0 else map_nd (cast_float32 fw) o0),
              tdev = Cpu, tdtype = Float32, tgraph = False\<rparr>)], s2)
   \<and> (\<forall>g g0 gs. gt = Some g \<and> tdata g = Arr (g0 # gs) \<longrightarrow>
     get_current_visuals fw True s2 =
     (Inr [(''Input'', \<lparr>tdata = (if tdtype lq = Float32 then c0 else map_nd (cast_float32 fw) c0),
              tdev = Cpu, tdtype = Float32, tgraph = False\<rparr>),
           (''Output'', \<lparr>tdata = (if tdtype out = Float32 then o0 else map_nd (cast_float32 fw) o0),
              tdev = Cpu, tdtype = Float32, tgraph = False\<rparr>),
           (''GT'', \<lparr>tdata = (if tdtype g = Float32 then g0 else map_nd (cast_float32 fw) g0),
              tdev = Cpu, tdtype = Float32, tgraph = False\<rparr>)], s2))"
proof -
  obtain d where d: "device (self s0) = Some d"
    using feed_data_Inr [OF assms(1)] by blast
  have s1: "s1 = s0\<lparr>self := (self s0)\<lparr>state := Some (to_device d x),
        condition := Some (to_device d lq),
        state_0 := (case gt of None \<Rightarrow> state_0 (self s0) | Some g \<Rightarrow> Some (to_device d g))\<rparr>\<rparr>"
    using assms(1) feed_data_eq [OF d, of x lq gt] by simp
  have s2: "snd (test sde perform_ode save_states s1) = s2"
    using assms(2) by simp
  have c: "condition (self s2) = Some (to_device d lq)"
    using test_frame_all [of sde perform_ode save_states s1] s1 unfolding s2 by simp
  have g: "gt = Some g \<Longrightarrow> state_0 (self s2) = Some (to_device d g)" for g
    using test_frame_all [of sde perform_ode save_states s1] s1 unfolding s2 by simp
  have cd: "tdata (to_device d lq) = Arr (c0 # cs)" "tdtype (to_device d lq) = tdtype lq"
    using assms(3) by (simp_all add: to_device_def)
  show ?thesis
  proof (intro conjI allI impI)
    show "get_current_visuals fw False s2 =
     (Inr [(''Input'', \<lparr>tdata = (if tdtype lq = Float32 then c0 else map_nd (cast_float32 fw) c0),
              tdev = Cpu, tdtype = Float32, tgraph = False\<rparr>),
           (''Output'', \<lparr>tdata = (if tdtype out = Float32 then o0 else map_nd (cast_float32 fw) o0),
              tdev = Cpu, tdtype = Float32, tgraph = False\<rparr>)], s2)"
      using get_current_visuals_eq(1) [OF c cd(1) assms(4) assms(5), of fw] cd(2) by simp
  next
    fix g g0 gs
    assume a: "gt = Some g \<and> tdata g = Arr (g0 # gs)"
    then have g0: "state_0 (self s2) = Some (to_device d g)"
      and gd: "tdata (to_device d g) = Arr (g0 # gs)" "tdtype (to_device d g) = tdtype g"
      using g by (simp_all add: to_device_def)
    show "get_current_visuals fw True s2 =
     (Inr [(''Input'', \<lparr>tdata = (if tdtype lq = Float32 then c0 else map_nd (cast_float32 fw) c0),
              tdev = Cpu, tdtype = Float32, tgraph = False\<rparr>),
           (''Output'', \<lparr>tdata = (if tdtype out = Float32 then o0 else map_nd (cast_float32 fw) o0),
              tdev = Cpu, tdtype = Float32, tgraph = False\<rparr>),
           (''GT'', \<lparr>tdata = (if tdtype g = Float32 then g0 else map_nd (cast_float32 fw) g0),
              tdev = Cpu, tdtype = Float32, tgraph = False\<rparr>)], s2)"
      using get_current_visuals_eq(2) [OF c cd(1) assms(4) assms(5) g0 gd(1), of fw] cd(2) gd(2)
      by simp
  qed
qed

theorem get_current_visuals_after_test_witness:
  "feed_data ex_state ex_LQ (Some ex_GT) ex_world = (Inr (), ex_fed)
   \<and> test (Some ex_sde) True False ex_fed = (Inr (), ex_tested)
   \<and> get_current_visuals (ex_fw True) False ex_tested =
     (Inr [(''Input'', \<lparr>tdata = Arr [Scalar 5, Scalar 6], tdev = Cpu, tdtype = Float32,
              tgraph = False\<rparr>),
           (''Output'', \<lparr>tdata = Arr [Scalar 1, Scalar 2], tdev = Cpu, tdtype = Float32,
              tgraph = False\<rparr>)], ex_tested)
   \<and> get_current_visuals (ex_fw True) True ex_tested =
     (Inr [(''Input'', \<lparr>tdata = Arr [Scalar 5, Scalar 6], tdev = Cpu, tdtype = Float32,
              tgraph = False\<rparr>),
           (''Output'', \<lparr>tdata = Arr [Scalar 1, Scalar 2], tdev = Cpu, tdtype = Float32,
              tgraph = False\<rparr>),
           (''GT'', \<lparr>tdata = Arr [Scalar 9, Scalar 10], tdev = Cpu, tdtype = Float32,
              tgraph = False\<rparr>)], ex_tested)"
proof -
  have f: "feed_data ex_state ex_LQ (Some ex_GT) ex_world = (Inr (), ex_fed)"
    by (simp add: ex_fed_eq feed_data_eq [where d = Cuda] ex_world_def ex_self_def)
  have lq: "tdata ex_LQ = Arr (Arr [Scalar 5, Scalar 6] # [Arr [Scalar 7, Scalar 8]])"
    by (simp add: ex_LQ_def ex_tensor_def)
  have out: "output' (self ex_tested) = Some (to_device Cuda ex_state)"
    by (simp add: ex_tested_explicit)
  have od: "tdata (to_device Cuda ex_state) =
      Arr (Arr [Scalar 1, Scalar 2] # [Arr [Scalar 3, Scalar 4]])"
    by (simp add: ex_state_def ex_tensor_def to_device_def)
  have gd: "tdata ex_GT = Arr (Arr [Scalar 9, Scalar 10] # [Arr [Scalar 11, Scalar 12]])"
    by (simp add: ex_GT_def ex_tensor_def)
  from get_current_visuals_after_test [OF f ex_tested_eq lq out od, of "ex_fw True"] gd
  show ?thesis
    using f ex_tested_eq
    by (simp add: ex_LQ_def ex_state_def ex_GT_def ex_tensor_def to_device_def ex_fw_def)
qed

section \<open>One optimization step\<close>

text \<open>Each kind of step, followed by the rest of the method: the rest runs when the step
  returns, and the exception of the step is the result when it raises.\<close>

lemma pbind_get_attr:
  "pbind (get_attr name sel) f s =
     (case sel (self s) of None \<Rightarrow> (Inl (AttributeError name), s) | Some v \<Rightarrow> f v s)"
  by (simp add: pbind_def get_attr_def split: option.splits)

lemma pbind_lift:
  "pbind (lift r) f s = (case r of Inl e \<Rightarrow> (Inl e, s) | Inr x \<Rightarrow> f x s)"
  by (simp add: pbind_def lift_def split: sum.splits)

lemma pbind_ext_call:
  "pbind (ext_call ev g) f s =
     (case g (ext s) of
        (Inl e, w') \<Rightarrow> (Inl e, s\<lparr>ext := w', trace := trace s @ [(ev, grad_enabled s)]\<rparr>)
      | (Inr x, w') \<Rightarrow> f x (s\<lparr>ext := w', trace := trace s @ [(ev, grad_enabled s)]\<rparr>))"
  by (simp add: pbind_def ext_call_def split: prod.splits sum.splits)

lemma pbind_sde_method:
  "pbind (sde_method sde name) f s =
     (case sde of None \<Rightarrow> (Inl (AttributeError name), s) | Some obj \<Rightarrow> f obj s)"
  by (simp add: sde_method_def split: option.splits)

lemma pbind_sde_call:
  "pbind (sde_call ev g) f s =
     (case g \<lparr>ctx_net = model (self s), ctx_params = params s, ctx_grad = grad_enabled s\<rparr>
             (ext s) of
        (Inl e, w') \<Rightarrow> (Inl e, s\<lparr>ext := w', trace := trace s @ [(ev, grad_enabled s)]\<rparr>)
      | (Inr x, w') \<Rightarrow> f x (s\<lparr>ext := w', trace := trace s @ [(ev, grad_enabled s)]\<rparr>))"
  by (simp add: sde_call_def pbind_def get_ctx_def ext_call_def split: prod.splits sum.splits)

lemma pbind_call_zero_grad:
  "pbind (call_zero_grad fw i) f s =
     (if i < length (optim_store s) then
        (case zero_grad fw (optim_store s ! i) (params s) (ext s) of
           (Inl e, w') \<Rightarrow>
             (Inl e, s\<lparr>ext := w', trace := trace s @ [(Call_zero_grad i, grad_enabled s)]\<rparr>)
         | (Inr ps, w') \<Rightarrow>
             f () (s\<lparr>ext := w', trace := trace s @ [(Call_zero_grad i, grad_enabled s)],
                    params := ps\<rparr>))
      else (Inl (ExternalError ''no such optimizer''), s))"
  by (simp add: call_zero_grad_def pbind_def get_optimizer_def ext_call_def set_params_def
      split: prod.splits sum.splits)

lemma pbind_call_backward:
  "pbind (call_backward fw loss) f s =
     (case backward fw loss (params s) (ext s) of
        (Inl e, w') \<Rightarrow>
          (Inl e, s\<lparr>ext := w', trace := trace s @ [(Call_backward loss, grad_enabled s)]\<rparr>)
      | (Inr ps, w') \<Rightarrow>
          f () (s\<lparr>ext := w', trace := trace s @ [(Call_backward loss, grad_enabled s)],
                 params := ps\<rparr>))"
  by (simp add: call_backward_def pbind_def ext_call_def set_params_def
      split: prod.splits sum.splits)

lemma pbind_call_step:
  "pbind (call_step fw i) f s =
     (if i < length (optim_store s) then
        (case step_fn fw (optim_store s ! i) (params s) (ext s) of
           (Inl e, w') \<Rightarrow>
             (Inl e, s\<lparr>ext := w', trace := trace s @ [(Call_step i, grad_enabled s)]\<rparr>)
         | (Inr (ob', ps), w') \<Rightarrow>
             f () (s\<lparr>ext := w', trace := trace s @ [(Call_step i, grad_enabled s)],
                    optim_store := (optim_store s)[i := ob'], params := ps\<rparr>))
      else (Inl (ExternalError ''no such optimizer''), s))"
  by (simp add: call_step_def pbind_def get_optimizer_def ext_call_def set_params_def
      set_optimizer_def split: prod.splits sum.splits)

lemma pbind_call_load_network:
  "pbind (call_load_network fw path net strict) f s =
     (case load_network fw path net (params s) strict (ext s) of
        (Inl e, w') \<Rightarrow>
          (Inl e, s\<lparr>ext := w',
             trace := trace s @ [(Call_load_network path strict, grad_enabled s)]\<rparr>)
      | (Inr ps, w') \<Rightarrow>
          f () (s\<lparr>ext := w',
             trace := trace s @ [(Call_load_network path strict, grad_enabled s)],
             params := ps\<rparr>))"
  by (simp add: call_load_network_def pbind_def ext_call_def set_params_def
      split: prod.splits sum.splits)

lemmas pbind_rules = pbind_get_attr pbind_lift pbind_ext_call pbind_sde_method pbind_sde_call
  pbind_call_zero_grad pbind_call_backward pbind_call_step pbind_call_load_network

lemma ex_fed_noGT_eq:
  "ex_fed_noGT = ex_world\<lparr>self := ex_self\<lparr>state := Some (to_device Cuda ex_state),
     condition := Some (to_device Cuda ex_LQ)\<rparr>\<rparr>"
  by (simp add: ex_fed_noGT_def feed_data_eq [where d = Cuda] ex_world_def ex_self_def)

text \<open>
  C2: a call of \<^verbatim>\<open>optimize_parameters\<close> with ground truth fed, in which every call to the
  outside returns, makes these calls in this order: \<^verbatim>\<open>set_mu\<close> with the stored condition,
  \<^verbatim>\<open>zero_grad\<close> on the optimizer, \<^verbatim>\<open>noise_fn\<close> and \<^verbatim>\<open>get_score_from_noise\<close> at the
  timesteps, \<^verbatim>\<open>reverse_sde_step_mean\<close> and \<^verbatim>\<open>reverse_optimum_step\<close> (the latter from the
  ground truth), the loss function on their results and its product with the weight, one
  \<^verbatim>\<open>backward\<close> and one optimizer \<^verbatim>\<open>step\<close>. It returns nothing, and the only attribute of
  the orchestrator it changes is \<^verbatim>\<open>log_dict\<close>, where \<^verbatim>\<open>loss\<close> becomes the value of the loss.
\<close>

theorem optimize_parameters_steps:
  assumes "condition (self s) = Some cond"
    and "state (self s) = Some x"
    and "state_0 (self s) = Some x0"
    and "device (self s) = Some d"
    and "optimizer (self s) = Some i"
    and "i < length (optim_store s)"
    and "weight (self s) = Some w"
    and "loss_fn (self s) = Some lf"
    and "log_dict (self s) = Some ld"
    and "t = to_device d timesteps"
    and "c = \<lparr>ctx_net = model (self s), ctx_params = ps1, ctx_grad = grad_enabled s\<rparr>"
    and "set_mu obj cond (ext s) = (Inr (), w1)"
    and "zero_grad fw (optim_store s ! i) (params s) w1 = (Inr ps1, w2)"
    and "noise_fn obj c x (squeeze t) w2 = (Inr noise, w3)"
    and "get_score_from_noise obj c noise t w3 = (Inr score, w4)"
    and "reverse_sde_step_mean obj c x score t w4 = (Inr xt_1_expection, w5)"
    and "reverse_optimum_step obj c x x0 t w5 = (Inr xt_1_optimum, w6)"
    and "MatchingLoss_forward fw lf xt_1_expection xt_1_optimum w6 = (Inr l, w7)"
    and "scalar_mul fw w l w7 = (Inr loss, w8)"
    and "backward fw loss ps1 w8 = (Inr ps2, w9)"
    and "step_fn fw (optim_store s ! i) ps2 w9 = (Inr (ob', ps3), w10)"
    and "item loss = Inr v"
  shows "optimize_parameters fw step timesteps (Some obj) s =
     (Inr (),
      s\<lparr>self := (self s)\<lparr>log_dict := Some (AList.update ''loss'' v ld)\<rparr>,
        params := ps3,
        optim_store := (optim_store s)[i := ob'],
        ext := w10,
        trace := trace s @
          [(Call_set_mu cond, grad_enabled s),
           (Call_zero_grad i, grad_enabled s),
           (Call_noise_fn x (squeeze t), grad_enabled s),
           (Call_get_score_from_noise noise t, grad_enabled s),
           (Call_reverse_sde_step_mean x score t, grad_enabled s),
           (Call_reverse_optimum_step x x0 t, grad_enabled s),
           (Call_loss_fn xt_1_expection xt_1_optimum, grad_enabled s),
           (Call_mul w l, grad_enabled s),
           (Call_backward loss, grad_enabled s),
           (Call_step i, grad_enabled s)]\<rparr>)"
  using assms
  by (simp add: optimize_parameters_def pbind_rules set_self_def)

theorem optimize_parameters_steps_witness:
  "state_0 (self ex_fed) = Some (to_device Cuda ex_GT)
   \<and> optimize_parameters (ex_fw True) (PInt 1) ex_timesteps (Some ex_sde) ex_fed =
     (Inr (),
      ex_fed\<lparr>self := (self ex_fed)\<lparr>log_dict := Some [(''loss'', 3)]\<rparr>,
        params := map (\<lambda>(k, v). (k, v\<lparr>grad := Some (Scalar 1)\<rparr>)) (wrap_names ex_net_params),
        optim_store := [(optim_store ex_fed ! 0)\<lparr>opt_state := 1\<rparr>],
        ext := 1,
        trace :=
          [(Call_set_mu (to_device Cuda ex_LQ), True),
           (Call_zero_grad 0, True),
           (Call_noise_fn (to_device Cuda ex_state)
              (squeeze (to_device Cuda ex_timesteps)), True),
           (Call_get_score_from_noise ((to_device Cuda ex_state)\<lparr>tgraph := True\<rparr>)
              (to_device Cuda ex_timesteps), True),
           (Call_reverse_sde_step_mean (to_device Cuda ex_state)
              ((to_device Cuda ex_state)\<lparr>tgraph := True\<rparr>) (to_device Cuda ex_timesteps), True),
           (Call_reverse_optimum_step (to_device Cuda ex_state) (to_device Cuda ex_GT)
              (to_device Cuda ex_timesteps), True),
           (Call_loss_fn ((to_device Cuda ex_state)\<lparr>tgraph := True\<rparr>) (to_device Cuda ex_GT),
              True),
           (Call_mul (PFloat 1)
              \<lparr>tdata = Scalar 3, tdev = Cuda, tdtype = Dtype ''float64'', tgraph = True\<rparr>, True),
           (Call_backward
              \<lparr>tdata = Scalar 3, tdev = Cuda, tdtype = Dtype ''float64'', tgraph = True\<rparr>, True),
           (Call_step 0, True)]\<rparr>)"
proof -
  have h: "condition (self ex_fed) = Some (to_device Cuda ex_LQ)"
    "state (self ex_fed) = Some (to_device Cuda ex_state)"
    "state_0 (self ex_fed) = Some (to_device Cuda ex_GT)"
    "device (self ex_fed) = Some Cuda"
    "optimizer (self ex_fed) = Some 0"
    "0 < length (optim_store ex_fed)"
    "weight (self ex_fed) = Some (PFloat 1)"
    "loss_fn (self ex_fed) =
       Some \<lparr>loss_type = PStr ''l1'', is_weighted = PBool False, loss_device = Cuda\<rparr>"
    "log_dict (self ex_fed) = Some []"
    by (simp_all add: ex_fed_eq ex_self_def ex_world_def)
  have e: "set_mu ex_sde (to_device Cuda ex_LQ) (ext ex_fed) = (Inr (), 1)"
    by (simp add: ex_sde_def ex_fed_eq ex_world_def)
  have z: "zero_grad (ex_fw True) (optim_store ex_fed ! 0) (params ex_fed) 1 =
      (Inr (wrap_names ex_net_params), 1)"
    by (simp add: ex_fw_def ex_fed_eq ex_world_def wrap_names_def ex_net_params_def)
  have l: "item \<lparr>tdata = Scalar (3::int), tdev = Cuda, tdtype = Dtype ''float64'',
      tgraph = True\<rparr> = Inr 3"
    by (simp add: item_def)
  show ?thesis
    using h(3)
      optimize_parameters_steps [where fw = "ex_fw True" and obj = ex_sde and s = ex_fed
        and step = "PInt 1" and timesteps = ex_timesteps, OF h refl refl e z _ _ _ _ _ _ _ _ l]
    by (simp add: ex_sde_def ex_fw_def to_device_def ex_state_def ex_GT_def ex_tensor_def
        ex_fed_eq ex_world_def)
qed

text \<open>Without ground truth the lookup of \<^verbatim>\<open>self.state_0\<close> on line 121 is reached or an
  earlier step raises.\<close>

lemma optimize_parameters_no_GT_fails:
  assumes "state_0 (self s) = None"
  shows "\<exists>e. fst (optimize_parameters fw step timesteps sde s) = Inl e"
  using assms
  by (auto simp add: optimize_parameters_def pbind_rules
      split: option.splits sum.splits prod.splits)

lemma optimize_parameters_no_GT_frame:
  assumes "state_0 (self s) = None"
  shows "self (snd (optimize_parameters fw step timesteps sde s)) = self s
    \<and> optim_store (snd (optimize_parameters fw step timesteps sde s)) = optim_store s"
  using assms
  by (auto simp add: optimize_parameters_def pbind_rules
      split: option.splits sum.splits prod.splits)

lemma optimize_parameters_no_GT_point:
  assumes "state_0 (self s) = None"
    and "condition (self s) = Some cond"
    and "state (self s) = Some x"
    and "device (self s) = Some d"
    and "optimizer (self s) = Some i"
    and "i < length (optim_store s)"
    and "t = to_device d timesteps"
    and "c = \<lparr>ctx_net = model (self s), ctx_params = ps1, ctx_grad = grad_enabled s\<rparr>"
    and "set_mu obj cond (ext s) = (Inr (), w1)"
    and "zero_grad fw (optim_store s ! i) (params s) w1 = (Inr ps1, w2)"
    and "noise_fn obj c x (squeeze t) w2 = (Inr noise, w3)"
    and "get_score_from_noise obj c noise t w3 = (Inr score, w4)"
    and "reverse_sde_step_mean obj c x score t w4 = (Inr xt_1_expection, w5)"
  shows "optimize_parameters fw step timesteps (Some obj) s =
     (Inl (AttributeError ''state_0''),
      s\<lparr>params := ps1, ext := w5,
        trace := trace s @
          [(Call_set_mu cond, grad_enabled s),
           (Call_zero_grad i, grad_enabled s),
           (Call_noise_fn x (squeeze t), grad_enabled s),
           (Call_get_score_from_noise noise t, grad_enabled s),
           (Call_reverse_sde_step_mean x score t, grad_enabled s)]\<rparr>)"
  using assms
  by (simp add: optimize_parameters_def pbind_rules)

text \<open>
  C3: when \<^verbatim>\<open>state_0\<close> was never assigned, every call of \<^verbatim>\<open>optimize_parameters\<close> raises,
  with the orchestrator and the optimizers as they were; there is no check before the use
  on line 121: when the steps before it return, the calls \<^verbatim>\<open>set_mu\<close>, \<^verbatim>\<open>zero_grad\<close>,
  \<^verbatim>\<open>noise_fn\<close>, \<^verbatim>\<open>get_score_from_noise\<close> and \<^verbatim>\<open>reverse_sde_step_mean\<close> have been made and
  the exception is the AttributeError of the missing attribute.
\<close>

theorem optimize_parameters_without_ground_truth:
  assumes "state_0 (self s) = None"
  shows "(\<exists>e. fst (optimize_parameters fw step timesteps sde s) = Inl e)
    \<and> self (snd (optimize_parameters fw step timesteps sde s)) = self s
    \<and> optim_store (snd (optimize_parameters fw step timesteps sde s)) = optim_store s
    \<and> (\<forall>obj cond x d i ps1 w1 w2 noise w3 score w4 xt_1_expection w5.
         sde = Some obj \<and> condition (self s) = Some cond \<and> state (self s) = Some x
         \<and> device (self s) = Some d \<and> optimizer (self s) = Some i
         \<and> i < length (optim_store s)
         \<and> set_mu obj cond (ext s) = (Inr (), w1)
         \<and> zero_grad fw (optim_store s ! i) (params s) w1 = (Inr ps1, w2)
         \<and> noise_fn obj
              \<lparr>ctx_net = model (self s), ctx_params = ps1, ctx_grad = grad_enabled s\<rparr>
              x (squeeze (to_device d timesteps)) w2 = (Inr noise, w3)
         \<and> get_score_from_noise obj
              \<lparr>ctx_net = model (self s), ctx_params = ps1, ctx_grad = grad_enabled s\<rparr>
              noise (to_device d timesteps) w3 = (Inr score, w4)
         \<and> reverse_sde_step_mean obj
              \<lparr>ctx_net = model (self s), ctx_params = ps1, ctx_grad = grad_enabled s\<rparr>
              x score (to_device d timesteps) w4 = (Inr xt_1_expection, w5)
         \<longrightarrow> optimize_parameters fw step timesteps sde s =
              (Inl (AttributeError ''state_0''),
               s\<lparr>params := ps1, ext := w5,
                 trace := trace s @
                   [(Call_set_mu cond, grad_enabled s),
                    (Call_zero_grad i, grad_enabled s),
                    (Call_noise_fn x (squeeze (to_device d timesteps)), grad_enabled s),
                    (Call_get_score_from_noise noise (to_device d timesteps), grad_enabled s),
                    (Call_reverse_sde_step_mean x score (to_device d timesteps),
                       grad_enabled s)]\<rparr>))"
proof (intro conjI allI impI)
  show "\<exists>e. fst (optimize_parameters fw step timesteps sde s) = Inl e"
    using assms by (rule optimize_parameters_no_GT_fails)
  show "self (snd (optimize_parameters fw step timesteps sde s)) = self s"
    using optimize_parameters_no_GT_frame [OF assms] by blast
  show "optim_store (snd (optimize_parameters fw step timesteps sde s)) = optim_store s"
    using optimize_parameters_no_GT_frame [OF assms] by blast
next
  fix obj cond x d i ps1 w1 w2 noise w3 score w4 xt_1_expection w5
  assume a: "sde = Some obj \<and> condition (self s) = Some cond \<and> state (self s) = Some x
         \<and> device (self s) = Some d \<and> optimizer (self s) = Some i
         \<and> i < length (optim_store s)
         \<and> set_mu obj cond (ext s) = (Inr (), w1)
         \<and> zero_grad fw (optim_store s ! i) (params s) w1 = (Inr ps1, w2)
         \<and> noise_fn obj
              \<lparr>ctx_net = model (self s), ctx_params = ps1, ctx_grad = grad_enabled s\<rparr>
              x (squeeze (to_device d timesteps)) w2 = (Inr noise, w3)
         \<and> get_score_from_noise obj
              \<lparr>ctx_net = model (self s), ctx_params = ps1, ctx_grad = grad_enabled s\<rparr>
              noise (to_device d timesteps) w3 = (Inr score, w4)
         \<and> reverse_sde_step_mean obj
              \<lparr>ctx_net = model (self s), ctx_params = ps1, ctx_grad = grad_enabled s\<rparr>
              x score (to_device d timesteps) w4 = (Inr xt_1_expection, w5)"
  then have sde: "sde = Some obj"
    and f: "condition (self s) = Some cond" "state (self s) = Some x"
      "device (self s) = Some d" "optimizer (self s) = Some i" "i < length (optim_store s)"
    and g: "set_mu obj cond (ext s) = (Inr (), w1)"
      "zero_grad fw (optim_store s ! i) (params s) w1 = (Inr ps1, w2)"
      "noise_fn obj
              \<lparr>ctx_net = model (self s), ctx_params = ps1, ctx_grad = grad_enabled s\<rparr>
              x (squeeze (to_device d timesteps)) w2 = (Inr noise, w3)"
      "get_score_from_noise obj
              \<lparr>ctx_net = model (self s), ctx_params = ps1, ctx_grad = grad_enabled s\<rparr>
              noise (to_device d timesteps) w3 = (Inr score, w4)"
      "reverse_sde_step_mean obj
              \<lparr>ctx_net = model (self s), ctx_params = ps1, ctx_grad = grad_enabled s\<rparr>
              x score (to_device d timesteps) w4 = (Inr xt_1_expection, w5)"
    by blast+
  show "optimize_parameters fw step timesteps sde s =
              (Inl (AttributeError ''state_0''),
               s\<lparr>params := ps1, ext := w5,
                 trace := trace s @
                   [(Call_set_mu cond, grad_enabled s),
                    (Call_zero_grad i, grad_enabled s),
                    (Call_noise_fn x (squeeze (to_device d timesteps)), grad_enabled s),
                    (Call_get_score_from_noise noise (to_device d timesteps), grad_enabled s),
                    (Call_reverse_sde_step_mean x score (to_device d timesteps),
                       grad_enabled s)]\<rparr>)"
    unfolding sde
    by (rule optimize_parameters_no_GT_point [OF assms f refl refl g])
qed

theorem optimize_parameters_without_ground_truth_witness:
  "state_0 (self ex_fed_noGT) = None
   \<and> optimize_parameters (ex_fw True) (PInt 1) ex_timesteps (Some ex_sde) ex_fed_noGT =
       (Inl (AttributeError ''state_0''),
        ex_fed_noGT\<lparr>params := wrap_names ex_net_params, ext := 1,
          trace :=
            [(Call_set_mu (to_device Cuda ex_LQ), True),
             (Call_zero_grad 0, True),
             (Call_noise_fn (to_device Cuda ex_state)
                (squeeze (to_device Cuda ex_timesteps)), True),
             (Call_get_score_from_noise ((to_device Cuda ex_state)\<lparr>tgraph := True\<rparr>)
                (to_device Cuda ex_timesteps), True),
             (Call_reverse_sde_step_mean (to_device Cuda ex_state)
                ((to_device Cuda ex_state)\<lparr>tgraph := True\<rparr>) (to_device Cuda ex_timesteps),
                True)]\<rparr>)"
proof -
  have n: "state_0 (self ex_fed_noGT) = None"
    by (simp add: ex_fed_noGT_eq ex_self_def)
  have z: "zero_grad (ex_fw True) (optim_store ex_fed_noGT ! 0) (params ex_fed_noGT) 1 =
      (Inr (wrap_names ex_net_params), 1)"
    by (simp add: ex_fw_def ex_fed_noGT_eq ex_world_def wrap_names_def ex_net_params_def)
  from optimize_parameters_without_ground_truth [OF n, of "ex_fw True" "PInt 1" ex_timesteps
      "Some ex_sde"]
  have "\<forall>obj cond x d i ps1 w1 w2 noise w3 score w4 xt_1_expection w5.
         Some ex_sde = Some obj \<and> condition (self ex_fed_noGT) = Some cond
         \<and> state (self ex_fed_noGT) = Some x
         \<and> device (self ex_fed_noGT) = Some d \<and> optimizer (self ex_fed_noGT) = Some i
         \<and> i < length (optim_store ex_fed_noGT)
         \<and> set_mu obj cond (ext ex_fed_noGT) = (Inr (), w1)
         \<and> zero_grad (ex_fw True) (optim_store ex_fed_noGT ! i) (params ex_fed_noGT) w1 =
             (Inr ps1, w2)
         \<and> noise_fn obj
              \<lparr>ctx_net = model (self ex_fed_noGT), ctx_params = ps1,
                ctx_grad = grad_enabled ex_fed_noGT\<rparr>
              x (squeeze (to_device d ex_timesteps)) w2 = (Inr noise, w3)
         \<and> get_score_from_noise obj
              \<lparr>ctx_net = model (self ex_fed_noGT), ctx_params = ps1,
                ctx_grad = grad_enabled ex_fed_noGT\<rparr>
              noise (to_device d ex_timesteps) w3 = (Inr score, w4)
         \<and> reverse_sde_step_mean obj
              \<lparr>ctx_net = model (self ex_fed_noGT), ctx_params = ps1,
                ctx_grad = grad_enabled ex_fed_noGT\<rparr>
              x score (to_device d ex_timesteps) w4 = (Inr xt_1_expection, w5)
         \<longrightarrow> optimize_parameters (ex_fw True) (PInt 1) ex_timesteps (Some ex_sde) ex_fed_noGT =
              (Inl (AttributeError ''state_0''),
               ex_fed_noGT\<lparr>params := ps1, ext := w5,
                 trace := trace ex_fed_noGT @
                   [(Call_set_mu cond, grad_enabled ex_fed_noGT),
                    (Call_zero_grad i, grad_enabled ex_fed_noGT),
                    (Call_noise_fn x (squeeze (to_device d ex_timesteps)),
                       grad_enabled ex_fed_noGT),
                    (Call_get_score_from_noise noise (to_device d ex_timesteps),
                       grad_enabled ex_fed_noGT),
                    (Call_reverse_sde_step_mean x score (to_device d ex_timesteps),
                       grad_enabled ex_fed_noGT)]\<rparr>)"
    by blast
  from this [rule_format, of ex_sde "to_device Cuda ex_LQ" "to_device Cuda ex_state" Cuda 0
      1 "wrap_names ex_net_params" 1 "(to_device Cuda ex_state)\<lparr>tgraph := True\<rparr>" 1
      "(to_device Cuda ex_state)\<lparr>tgraph := True\<rparr>" 1
      "(to_device Cuda ex_state)\<lparr>tgraph := True\<rparr>" 1] z n
  show ?thesis
    by (simp add: ex_fed_noGT_eq ex_self_def ex_world_def ex_sde_def)
qed

section \<open>Loading a checkpoint\<close>

lemma call_load_network_eq:
  "call_load_network fw path net strict s =
     (case load_network fw path net (params s) strict (ext s) of
        (Inl e, w') \<Rightarrow>
          (Inl e, s\<lparr>ext := w',
             trace := trace s @ [(Call_load_network path strict, grad_enabled s)]\<rparr>)
      | (Inr ps, w') \<Rightarrow>
          (Inr (), s\<lparr>ext := w',
             trace := trace s @ [(Call_load_network path strict, grad_enabled s)],
             params := ps\<rparr>))"
  by (simp add: call_load_network_def pbind_def ext_call_def set_params_def
      split: prod.splits sum.splits)

text \<open>
  C8: with the entry \<^verbatim>\<open>pretrain_model_G\<close> of the configuration \<^verbatim>\<open>None\<close>, \<^verbatim>\<open>load\<close> returns
  without a call and without a change; with a path there, it logs one line and calls
  \<^verbatim>\<open>load_network\<close> with that path, the network and the configured \<^verbatim>\<open>strict_load\<close>, and its
  result is the result of that call.
\<close>

theorem load_skips_or_loads:
  assumes "opt (self s) = Some c"
    and "subscript c ''path'' = Inr p"
  shows "(subscript p ''pretrain_model_G'' = Inr PNone \<longrightarrow> load fw s = (Inr (), s))
   \<and> (\<forall>path net strict.
         subscript p ''pretrain_model_G'' = Inr (PStr path) \<and> model (self s) = Some net
         \<and> subscript p ''strict_load'' = Inr strict \<longrightarrow>
         load fw s =
           (case load_network fw path net (params s) strict (ext s) of
              (Inl e, w') \<Rightarrow>
                (Inl e,
                 s\<lparr>ext := w',
                   trace := trace s @
                     [(Call_logger_info (''Loading model for G ['' @ path @ ''] ...''),
                         grad_enabled s),
                      (Call_load_network path strict, grad_enabled s)]\<rparr>)
            | (Inr ps, w') \<Rightarrow>
                (Inr (),
                 s\<lparr>ext := w',
                   trace := trace s @
                     [(Call_logger_info (''Loading model for G ['' @ path @ ''] ...''),
                         grad_enabled s),
                      (Call_load_network path strict, grad_enabled s)],
                   params := ps\<rparr>)))"
  using assms
  by (auto simp add: load_def pbind_rules logger_info_def ret_def call_load_network_eq
      split: prod.splits sum.splits)

theorem load_skips_or_loads_witness:
  "load (ex_fw True) ex_world = (Inr (), ex_world)
   \<and> load (ex_fw True) ex_with_path =
     (Inr (), ex_with_path\<lparr>trace :=
        [(Call_logger_info ''Loading model for G [latest_G.pth] ...'', True),
         (Call_load_network ''latest_G.pth'' (PBool True), True)]\<rparr>)"
proof -
  have a: "opt (self ex_world) = Some (ex_opt (PStr ''MultiStepLR'') PNone)"
    by (simp add: ex_world_def ex_self_def)
  have b: "subscript (ex_opt (PStr ''MultiStepLR'') PNone) ''path'' =
      Inr (PDict [(''pretrain_model_G'', PNone), (''strict_load'', PBool True)])"
    by (simp add: ex_opt_def)
  have c: "opt (self ex_with_path) = Some (ex_opt (PStr ''MultiStepLR'') (PStr ''latest_G.pth''))"
    by (simp add: ex_with_path_def ex_world_def ex_self_def)
  have d: "subscript (ex_opt (PStr ''MultiStepLR'') (PStr ''latest_G.pth'')) ''path'' =
      Inr (PDict [(''pretrain_model_G'', PStr ''latest_G.pth''), (''strict_load'', PBool True)])"
    by (simp add: ex_opt_def)
  have m: "model (self ex_with_path) =
      Some \<lparr>training = True, net_device = Cuda, wrapped = DataParallel\<rparr>"
    by (simp add: ex_with_path_def ex_world_def ex_self_def)
  have 1: "load (ex_fw True) ex_world = (Inr (), ex_world)"
    using load_skips_or_loads [OF a b, of "ex_fw True"] by simp
  have 2: "load (ex_fw True) ex_with_path =
     (Inr (), ex_with_path\<lparr>trace :=
        [(Call_logger_info ''Loading model for G [latest_G.pth] ...'', True),
         (Call_load_network ''latest_G.pth'' (PBool True), True)]\<rparr>)"
    using load_skips_or_loads [OF c d, of "ex_fw True"] m
    by (simp add: ex_fw_def ex_with_path_def ex_world_def)
  from 1 2 show ?thesis by simp
qed

section \<open>Construction\<close>












end
